theory Spec2Isabelle
  imports Complex_Main "HOL-Library.AList" "HOL-Library.Multiset"
begin

section \<open>JavaScript values\<close>

text \<open>
  The handlers of \<^verbatim>\<open>perkController.js\<close> read request data that Express has parsed:
  the JSON body, the query string and the route parameters. A JSON text denotes a finite
  number (or an infinity, when the literal overflows a double), so there is no NaN among
  the numbers below. Finite numbers are rationals: the handlers only compare them with
  0, 100 and the safe-integer bounds, and these comparisons are exact on doubles.
  A string is a list of characters, each standing for one UTF-16 code unit, so that
  \<open>length\<close> is the \<^verbatim>\<open>length\<close> property of the source.
\<close>

datatype jsnum = Fin rat | PosInf | NegInf

datatype jsval =
    JUndefined
  | JNull
  | JBool bool
  | JNum jsnum
  | JStr string
  | JArr "jsval list"
  | JObj "(string \<times> jsval) list"

text \<open>
  An object is the list of its own properties. Reading a property takes the first binding
  of the key and yields \<^verbatim>\<open>undefined\<close> when there is none;
  \<^verbatim>\<open>Object.keys\<close> lists the keys.
\<close>

type_synonym jsobject = "(string \<times> jsval) list"

definition get :: "jsobject \<Rightarrow> string \<Rightarrow> jsval" where
  "get obj key = (case map_of obj key of None \<Rightarrow> JUndefined | Some v \<Rightarrow> v)"

definition object_keys :: "jsobject \<Rightarrow> string list" where
  "object_keys obj = map fst obj"

text \<open>ToBoolean: the falsy values are undefined, null, false, 0 and the empty string.\<close>

fun truthy :: "jsval \<Rightarrow> bool" where
  "truthy JUndefined = False"
| "truthy JNull = False"
| "truthy (JBool b) = b"
| "truthy (JNum n) = (n \<noteq> Fin 0)"
| "truthy (JStr s) = (s \<noteq> [])"
| "truthy (JArr xs) = True"
| "truthy (JObj kvs) = True"

fun typeof :: "jsval \<Rightarrow> string" where
  "typeof JUndefined = ''undefined''"
| "typeof JNull = ''object''"
| "typeof (JBool b) = ''boolean''"
| "typeof (JNum n) = ''number''"
| "typeof (JStr s) = ''string''"
| "typeof (JArr xs) = ''object''"
| "typeof (JObj kvs) = ''object''"

text \<open>
  The relational operators against a finite bound. The handler applies them behind
  \<^verbatim>\<open>typeof x !== 'number' ||\<close>, so they only ever see numbers; on the other values the
  functions below are never consulted.
\<close>

fun num_less :: "jsnum \<Rightarrow> rat \<Rightarrow> bool" where
  "num_less (Fin x) b = (x < b)"
| "num_less PosInf b = False"
| "num_less NegInf b = True"

fun num_greater :: "jsnum \<Rightarrow> rat \<Rightarrow> bool" where
  "num_greater (Fin x) b = (x > b)"
| "num_greater PosInf b = True"
| "num_greater NegInf b = False"

fun js_less :: "jsval \<Rightarrow> rat \<Rightarrow> bool" where
  "js_less (JNum n) b = num_less n b"
| "js_less v b = False"

fun js_greater :: "jsval \<Rightarrow> rat \<Rightarrow> bool" where
  "js_greater (JNum n) b = num_greater n b"
| "js_greater v b = False"

text \<open>
  \<^verbatim>\<open>Array.prototype.includes\<close> on an array literal of strings compares with
  SameValueZero: a string equals a string with the same code units, and nothing else
  equals a string.
\<close>

definition array_includes :: "string list \<Rightarrow> jsval \<Rightarrow> bool" where
  "array_includes xs v = (case v of JStr s \<Rightarrow> s \<in> set xs | _ \<Rightarrow> False)"

section \<open>Responses and store calls\<close>

text \<open>
  A stored document: its identifier, its creation time and its fields. An error thrown by
  the store carries the \<^verbatim>\<open>code\<close> property the create handler inspects
  (\<^verbatim>\<open>undefined\<close> when the error has none).
\<close>

record doc =
  doc_id :: string
  createdAt :: nat
  doc_fields :: jsobject

datatype js_error = JsError (err_code: jsval) (err_message: string)

text \<open>The validation errors of Joi's string, number and object schemas, each with the key it is about.\<close>

datatype joi_error =
    AnyRequired string
  | AnyOnly string
  | StringBase string
  | StringEmpty string
  | StringMin string
  | StringMax string
  | NumberBase string
  | NumberInfinity string
  | NumberUnsafe string
  | NumberMin string
  | NumberMax string
  | ObjectUnknown string

text \<open>
  The JSON bodies the handlers send, and the two ways a handler ends: it responds with a
  status and a body, or it passes an error to \<^verbatim>\<open>next\<close>.
\<close>

datatype json_body =
    Message string
  | JoiMessage joi_error
  | MessageErrors string "string list"
  | PerkBody doc
  | PerkList "doc list"
  | OkTrue

datatype outcome = Respond nat json_body | Next js_error

section \<open>filterPerks\<close>

text \<open>
  Each handler awaits the store once. It is split at the \<^verbatim>\<open>await\<close>: the first half
  either ends the request (\<open>Inl\<close>) or issues the store call (\<open>Inr\<close>, with the call's
  arguments); the second half maps what the store returned or threw to the outcome.
  \<open>filterPerks_request\<close> is lines 25-27 and 31-33, \<open>filterPerks_reply\<close> lines 28-29 and 34.
\<close>

definition filterPerks_request :: "jsval \<Rightarrow> outcome + jsval" where
  "filterPerks_request title =
     (if truthy title then Inr title
      else Inl (Respond 400 (Message ''Title query parameter is required'')))"

definition filterPerks_reply :: "js_error + doc list \<Rightarrow> outcome" where
  "filterPerks_reply r =
     (case r of Inl err \<Rightarrow> Next err | Inr perks \<Rightarrow> Respond 200 (PerkList perks))"

section \<open>updatePerk\<close>

definition allowedUpdates :: "string list" where
  "allowedUpdates = [''title'', ''description'', ''category'', ''discountPercent'', ''merchant'']"

definition isValidUpdate :: "jsobject \<Rightarrow> bool" where
  "isValidUpdate updates = list_all (\<lambda>key. key \<in> set allowedUpdates) (object_keys updates)"

text \<open>Lines 94-116: the list \<^verbatim>\<open>errors\<close> after the five checks, in the order of the pushes.\<close>

definition update_errors :: "jsobject \<Rightarrow> string list" where
  "update_errors updates =
     (if truthy (get updates ''title'') \<and> typeof (get updates ''title'') \<noteq> ''string''
      then [''Title must be a string''] else []) @
     (if truthy (get updates ''description'') \<and> typeof (get updates ''description'') \<noteq> ''string''
      then [''Description must be a string''] else []) @
     (if truthy (get updates ''category'') \<and>
         \<not> array_includes [''food'', ''tech'', ''travel'', ''fitness'', ''other''] (get updates ''category'')
      then [''Category must be one of: food, tech, travel, fitness, other''] else []) @
     (if get updates ''discountPercent'' \<noteq> JUndefined
      then (if typeof (get updates ''discountPercent'') \<noteq> ''number'' \<or>
               js_less (get updates ''discountPercent'') 0 \<or>
               js_greater (get updates ''discountPercent'') 100
            then [''Discount percent must be a number between 0 and 100''] else [])
      else []) @
     (if truthy (get updates ''merchant'') \<and> typeof (get updates ''merchant'') \<noteq> ''string''
      then [''Merchant must be a string''] else [])"

text \<open>
  Lines 75-127. \<^verbatim>\<open>mongoose.Types.ObjectId.isValid\<close> belongs to the driver and is a
  parameter; \<open>pid\<close> is \<^verbatim>\<open>req.params.id\<close>. \<open>Inr (pid, updates)\<close> is the call
  \<^verbatim>\<open>Perk.findByIdAndUpdate(id, { $set: updates }, ...)\<close>.
\<close>

definition updatePerk_request ::
  "(string \<Rightarrow> bool) \<Rightarrow> string \<Rightarrow> jsobject \<Rightarrow> outcome + (string \<times> jsobject)" where
  "updatePerk_request isValid pid updates =
     (if \<not> isValid pid then Inl (Respond 400 (Message ''Invalid perk ID''))
      else if \<not> isValidUpdate updates
        then Inl (Respond 400 (Message ''Invalid fields provided for update''))
      else (let errors = update_errors updates in
            if length errors > 0
            then Inl (Respond 400 (MessageErrors ''Validation errors'' errors))
            else Inr (pid, updates)))"

text \<open>Lines 129-139.\<close>

definition updatePerk_reply :: "js_error + doc option \<Rightarrow> outcome" where
  "updatePerk_reply r =
     (case r of
        Inl error \<Rightarrow> Next error
      | Inr None \<Rightarrow> Respond 404 (Message ''Perk not found'')
      | Inr (Some perk) \<Rightarrow> Respond 200 (PerkBody perk))"

section \<open>createPerk\<close>

subsection \<open>The schema\<close>

text \<open>
  \<^verbatim>\<open>perkSchema\<close> (lines 6-18) is a value of the Joi library. A key's schema is recorded
  as what the chained calls set: the base type, the values \<^verbatim>\<open>allow\<close> and
  \<^verbatim>\<open>valid\<close> add, the \<^verbatim>\<open>only\<close> flag of \<^verbatim>\<open>valid\<close>, the presence flag, the default and
  the limits of \<^verbatim>\<open>min\<close> and \<^verbatim>\<open>max\<close>.
\<close>

datatype joi_type = JoiString | JoiNumber

record joi_schema =
  s_type :: joi_type
  s_valids :: "jsval list"
  s_only :: bool
  s_required :: bool
  s_default :: "jsval option"
  s_min :: "rat option"
  s_max :: "rat option"

definition Joi_string :: joi_schema where
  "Joi_string = \<lparr>s_type = JoiString, s_valids = [], s_only = False, s_required = False,
                  s_default = None, s_min = None, s_max = None\<rparr>"

definition Joi_number :: joi_schema where
  "Joi_number = \<lparr>s_type = JoiNumber, s_valids = [], s_only = False, s_required = False,
                  s_default = None, s_min = None, s_max = None\<rparr>"

definition joi_min :: "rat \<Rightarrow> joi_schema \<Rightarrow> joi_schema" where
  "joi_min n s = s\<lparr>s_min := Some n\<rparr>"

definition joi_max :: "rat \<Rightarrow> joi_schema \<Rightarrow> joi_schema" where
  "joi_max n s = s\<lparr>s_max := Some n\<rparr>"

definition joi_required :: "joi_schema \<Rightarrow> joi_schema" where
  "joi_required s = s\<lparr>s_required := True\<rparr>"

definition joi_allow :: "jsval list \<Rightarrow> joi_schema \<Rightarrow> joi_schema" where
  "joi_allow vs s = s\<lparr>s_valids := s_valids s @ vs\<rparr>"

definition joi_valid :: "jsval list \<Rightarrow> joi_schema \<Rightarrow> joi_schema" where
  "joi_valid vs s = s\<lparr>s_valids := s_valids s @ vs, s_only := True\<rparr>"

definition joi_default :: "jsval \<Rightarrow> joi_schema \<Rightarrow> joi_schema" where
  "joi_default v s = s\<lparr>s_default := Some v\<rparr>"

definition perkSchema :: "(string \<times> joi_schema) list" where
  "perkSchema =
     [(''title'', joi_required (joi_min 2 Joi_string)),
      (''description'', joi_allow [JStr ''''] Joi_string),
      (''category'',
         joi_default (JStr ''other'')
           (joi_valid [JStr ''food'', JStr ''tech'', JStr ''travel'', JStr ''fitness'', JStr ''other'']
              Joi_string)),
      (''discountPercent'', joi_default (JNum (Fin 0)) (joi_max 100 (joi_min 0 Joi_number))),
      (''merchant'', joi_allow [JStr ''''] Joi_string)]"

subsection \<open>Validation against a schema\<close>

text \<open>
  \<^verbatim>\<open>schema.validate(value)\<close> with Joi's default preferences (\<^verbatim>\<open>abortEarly\<close>,
  \<^verbatim>\<open>convert\<close>, unknown keys refused) runs these steps on each key, and stops at the
  first error:
  \<^enum> a number schema converts a string that reads as a number; how Joi reads a string is
    the library's and is the parameter \<open>coerce\<close> below;
  \<^enum> an undefined value is an error when the key is required, and otherwise the default
    (or nothing);
  \<^enum> a value among the allowed ones is accepted as it is; when \<^verbatim>\<open>valid\<close> was called, any
    other value is an error;
  \<^enum> the base type is checked: a string schema refuses a value that is not a string, and
    the empty string; a number schema refuses the infinities, a value that is not a number,
    and a number beyond the safe integers;
  \<^enum> the rules \<^verbatim>\<open>min\<close> and \<^verbatim>\<open>max\<close> are checked in the order they were added.
  After the keys of the schema, a key of the input that the schema does not name is an error.
\<close>

datatype coerced = NoMatch | Unsafe | Converted jsnum

definition MAX_SAFE_INTEGER :: rat where
  "MAX_SAFE_INTEGER = 9007199254740991"

definition joi_coerce :: "(string \<Rightarrow> coerced) \<Rightarrow> string \<Rightarrow> joi_schema \<Rightarrow> jsval \<Rightarrow> joi_error + jsval" where
  "joi_coerce coerce key schema v =
     (case (s_type schema, v) of
        (JoiNumber, JStr s) \<Rightarrow>
          (case coerce s of
             NoMatch \<Rightarrow> Inr v
           | Unsafe \<Rightarrow> Inl (NumberUnsafe key)
           | Converted n \<Rightarrow> Inr (JNum n))
      | _ \<Rightarrow> Inr v)"

definition joi_base :: "string \<Rightarrow> joi_schema \<Rightarrow> jsval \<Rightarrow> joi_error option" where
  "joi_base key schema v =
     (case s_type schema of
        JoiString \<Rightarrow>
          (case v of
             JStr s \<Rightarrow> (if s = [] \<and> s_min schema \<noteq> Some 0 then Some (StringEmpty key) else None)
           | _ \<Rightarrow> Some (StringBase key))
      | JoiNumber \<Rightarrow>
          (case v of
             JNum PosInf \<Rightarrow> Some (NumberInfinity key)
           | JNum NegInf \<Rightarrow> Some (NumberInfinity key)
           | JNum (Fin x) \<Rightarrow>
               (if x > MAX_SAFE_INTEGER \<or> x < - MAX_SAFE_INTEGER then Some (NumberUnsafe key)
                else None)
           | _ \<Rightarrow> Some (NumberBase key)))"

text \<open>The rules apply to a value that passed the base type: a string or a finite number.\<close>

definition joi_rules :: "string \<Rightarrow> joi_schema \<Rightarrow> jsval \<Rightarrow> joi_error option" where
  "joi_rules key schema v =
     (case v of
        JStr s \<Rightarrow>
          (if (case s_min schema of Some lo \<Rightarrow> of_nat (length s) < lo | None \<Rightarrow> False)
           then Some (StringMin key)
           else if (case s_max schema of Some hi \<Rightarrow> of_nat (length s) > hi | None \<Rightarrow> False)
           then Some (StringMax key)
           else None)
      | JNum n \<Rightarrow>
          (if (case s_min schema of Some lo \<Rightarrow> num_less n lo | None \<Rightarrow> False)
           then Some (NumberMin key)
           else if (case s_max schema of Some hi \<Rightarrow> num_greater n hi | None \<Rightarrow> False)
           then Some (NumberMax key)
           else None)
      | _ \<Rightarrow> None)"

definition validate_value ::
  "(string \<Rightarrow> coerced) \<Rightarrow> string \<Rightarrow> joi_schema \<Rightarrow> jsval \<Rightarrow> joi_error + jsval" where
  "validate_value coerce key schema v0 =
     (case joi_coerce coerce key schema v0 of
        Inl e \<Rightarrow> Inl e
      | Inr v \<Rightarrow>
          (if v = JUndefined
           then (if s_required schema then Inl (AnyRequired key)
                 else Inr (case s_default schema of Some d \<Rightarrow> d | None \<Rightarrow> JUndefined))
           else if v \<in> set (s_valids schema) then Inr v
           else if s_only schema then Inl (AnyOnly key)
           else (case joi_base key schema v of
                   Some e \<Rightarrow> Inl e
                 | None \<Rightarrow>
                     (case joi_rules key schema v of
                        Some e \<Rightarrow> Inl e
                      | None \<Rightarrow> Inr v))))"

text \<open>
  The keys of the schema, in order, on a copy of the input: a key whose result is defined
  is written into the copy.
\<close>

fun validate_keys ::
  "(string \<Rightarrow> coerced) \<Rightarrow> (string \<times> joi_schema) list \<Rightarrow> jsobject \<Rightarrow> joi_error + jsobject" where
  "validate_keys coerce [] value = Inr value"
| "validate_keys coerce ((key, schema) # rest) value =
     (case validate_value coerce key schema (get value key) of
        Inl e \<Rightarrow> Inl e
      | Inr v \<Rightarrow>
          validate_keys coerce rest
            (if v = JUndefined then value else AList.update key v value))"

definition joi_validate ::
  "(string \<Rightarrow> coerced) \<Rightarrow> (string \<times> joi_schema) list \<Rightarrow> jsobject \<Rightarrow> joi_error + jsobject" where
  "joi_validate coerce schema body =
     (case validate_keys coerce schema body of
        Inl e \<Rightarrow> Inl e
      | Inr value \<Rightarrow>
          (case filter (\<lambda>k. k \<notin> set (map fst schema)) (object_keys body) of
             [] \<Rightarrow> Inr value
           | k # ks \<Rightarrow> Inl (ObjectUnknown k)))"

subsection \<open>The handler\<close>

text \<open>
  Lines 61-64: \<open>Inr value\<close> is the call \<^verbatim>\<open>Perk.create({ ...value })\<close>. Lines 65-69: the
  store returned the document, or threw.
\<close>

definition createPerk_request :: "(string \<Rightarrow> coerced) \<Rightarrow> jsobject \<Rightarrow> outcome + jsobject" where
  "createPerk_request coerce body =
     (case joi_validate coerce perkSchema body of
        Inl error \<Rightarrow> Inl (Respond 400 (JoiMessage error))
      | Inr value \<Rightarrow> Inr value)"

definition createPerk_reply :: "js_error + doc \<Rightarrow> outcome" where
  "createPerk_reply r =
     (case r of
        Inl err \<Rightarrow>
          (if err_code err = JNum (Fin 11000)
           then Respond 409 (Message ''Duplicate perk for this merchant'')
           else Next err)
      | Inr d \<Rightarrow> Respond 201 (PerkBody d))"

section \<open>The record store\<close>

text \<open>
  The Perk model (\<^verbatim>\<open>models/Perk.js\<close>) and the collection behind it are not among the
  sources; the handlers above only call it. The store below follows the store interface
  of the specification. It is the list of its documents; the operations the handlers
  await neither fail nor, the update apart, change it.
\<close>

type_synonym store = "doc list"

text \<open>
  Modelled from the spec: \<^verbatim>\<open>Perk.find({ title }).sort({ createdAt: -1 })\<close> is not among the
  sources. The specification gives \<^verbatim>\<open>findByExactField(field, value) -> sequence<record>\<close>,
  sorted by creation time descending: the documents whose title is the value, newest first.
\<close>

definition store_find_title :: "jsval \<Rightarrow> store \<Rightarrow> js_error + doc list" where
  "store_find_title title st =
     Inr (rev (sort_key createdAt (filter (\<lambda>d. get (doc_fields d) ''title'' = title) st)))"

text \<open>
  Modelled from the spec: the effect of \<^verbatim>\<open>$set\<close> is not among the sources. The
  specification's update takes partial fields: each given field replaces the field of the
  record, and the other fields stay.
\<close>

definition set_fields :: "jsobject \<Rightarrow> jsobject \<Rightarrow> jsobject" where
  "set_fields updates fs = fold (\<lambda>(k, v) acc. AList.update k v acc) updates fs"

text \<open>
  Modelled from the spec: \<^verbatim>\<open>Perk.findByIdAndUpdate\<close> is not among the sources. The
  specification gives \<^verbatim>\<open>updateById(id, partialFields) -> record | none\<close>, returning the
  record after the update (\<^verbatim>\<open>new: true\<close>): the document with the identifier gets the
  fields, and there is none when no document has the identifier.
\<close>

fun update_first :: "string \<Rightarrow> jsobject \<Rightarrow> doc list \<Rightarrow> doc option \<times> doc list" where
  "update_first pid updates [] = (None, [])"
| "update_first pid updates (d # ds) =
     (if doc_id d = pid
      then (let d' = d\<lparr>doc_fields := set_fields updates (doc_fields d)\<rparr> in (Some d', d' # ds))
      else (case update_first pid updates ds of (r, ds') \<Rightarrow> (r, d # ds')))"

text \<open>
  Modelled from the spec: the validators that the Perk model declares are not among the
  sources. The handler's call passes \<^verbatim>\<open>runValidators: true\<close>, so they run on the fields
  of the update before it is applied, each on the field it is declared for, and an update
  with a field that fails is not applied: the call throws. They are the parameter
  \<open>validators\<close>, which gives for a field and its new value the error thrown, if any. An
  update without fields runs no validator.
\<close>

definition run_validators ::
  "(string \<Rightarrow> jsval \<Rightarrow> js_error option) \<Rightarrow> jsobject \<Rightarrow> js_error option" where
  "run_validators validators updates =
     (case List.map_filter (\<lambda>(k, v). validators k v) updates of
        [] \<Rightarrow> None
      | e # es \<Rightarrow> Some e)"

text \<open>
  Modelled from the spec: the call the update handler awaits, on the store above. It
  throws when a validator refuses a field, and leaves the store as it is; otherwise it is
  the specification's \<^verbatim>\<open>updateById\<close>.
\<close>

definition store_findByIdAndUpdate ::
  "(string \<Rightarrow> jsval \<Rightarrow> js_error option) \<Rightarrow> string \<Rightarrow> jsobject \<Rightarrow> store \<Rightarrow>
   (js_error + doc option) \<times> store" where
  "store_findByIdAndUpdate validators pid updates st =
     (case run_validators validators updates of
        Some err \<Rightarrow> (Inl err, st)
      | None \<Rightarrow> (case update_first pid updates st of (r, st') \<Rightarrow> (Inr r, st')))"

text \<open>A handler run against the store: the outcome and, for the update, the store afterwards.\<close>

definition filterPerks :: "store \<Rightarrow> jsval \<Rightarrow> outcome" where
  "filterPerks st title =
     (case filterPerks_request title of
        Inl out \<Rightarrow> out
      | Inr t \<Rightarrow> filterPerks_reply (store_find_title t st))"

definition updatePerk ::
  "(string \<Rightarrow> bool) \<Rightarrow> (string \<Rightarrow> jsval \<Rightarrow> js_error option) \<Rightarrow> store \<Rightarrow> string \<Rightarrow> jsobject \<Rightarrow>
   outcome \<times> store" where
  "updatePerk isValid validators st pid updates =
     (case updatePerk_request isValid pid updates of
        Inl out \<Rightarrow> (out, st)
      | Inr (i, ups) \<Rightarrow>
          (case store_findByIdAndUpdate validators i ups st of
             (r, st') \<Rightarrow> (updatePerk_reply r, st')))"

text \<open>
  The textual form of an ObjectId, 24 hexadecimal digits: an instance of the identifier
  test for evaluating the update handler on concrete requests.
\<close>

definition hex24 :: "string \<Rightarrow> bool" where
  "hex24 s = (length s = 24 \<and> list_all (\<lambda>c. c \<in> set ''0123456789abcdefABCDEF'') s)"

section \<open>The field constraints, as the specification words them\<close>

text \<open>
  The constraint of each updatable field, from the data model of the specification: title,
  description and merchant are strings, category is one of the five fixed values,
  discountPercent is a number from 0 to 100. The definition is written from the
  specification's words, to compare the checks of \<open>update_errors\<close> against.
\<close>

definition satisfies_constraint :: "string \<Rightarrow> jsval \<Rightarrow> bool" where
  "satisfies_constraint field v =
     (if field = ''category''
      then (case v of
              JStr s \<Rightarrow> s \<in> set [''food'', ''tech'', ''travel'', ''fitness'', ''other'']
            | _ \<Rightarrow> False)
      else if field = ''discountPercent''
      then (case v of JNum (Fin x) \<Rightarrow> 0 \<le> x \<and> x \<le> 100 | _ \<Rightarrow> False)
      else (case v of JStr s \<Rightarrow> True | _ \<Rightarrow> False))"

section \<open>Auxiliary facts\<close>

lemma get_absent: "key \<notin> set (object_keys obj) \<Longrightarrow> get obj key = JUndefined"
  by (simp add: get_def object_keys_def map_of_eq_None_iff[THEN iffD2])


lemma isValidUpdate_iff:
  "isValidUpdate updates \<longleftrightarrow> set (object_keys updates) \<subseteq> set allowedUpdates"
  by (auto simp: isValidUpdate_def list_all_iff)

lemma hex24_example: "hex24 ''507f1f77bcf86cd799439011''"
  by (simp add: hex24_def)

text \<open>
  The field checks let every string through as a title, whatever its length: the update
  is handed to the store, whose validators then decide.
\<close>

lemma updatePerk_request_title_string:
  "isValid pid \<Longrightarrow>
   updatePerk_request isValid pid [(''title'', JStr s)] = Inr (pid, [(''title'', JStr s)])"
  by (simp add: updatePerk_request_def isValidUpdate_def object_keys_def allowedUpdates_def
      update_errors_def get_def)

lemma run_validators_empty: "run_validators validators [] = None"
  by (simp add: run_validators_def List.map_filter_simps)

lemma set_fields_empty: "set_fields [] fs = fs"
  by (simp add: set_fields_def)

lemma update_first_empty:
  "update_first pid [] st = (find (\<lambda>d. doc_id d = pid) st, st)"
  by (induction st) (simp_all add: set_fields_empty)

lemma filterPerks_nonempty:
  "s \<noteq> [] \<Longrightarrow> filterPerks st (JStr s) =
     Respond 200 (PerkList (rev (sort_key createdAt
        (filter (\<lambda>d. get (doc_fields d) ''title'' = JStr s) st))))"
  by (simp add: filterPerks_def filterPerks_request_def filterPerks_reply_def store_find_title_def)

lemma newest_first_rev_sort:
  "sorted_wrt (\<lambda>a b. createdAt b \<le> createdAt a) (rev (sort_key createdAt xs))"
proof -
  have "sorted (map createdAt (sort_key createdAt xs))"
    by (rule sorted_sort_key)
  then have "sorted_wrt (\<lambda>a b. createdAt a \<le> createdAt b) (sort_key createdAt xs)"
    by (simp add: sorted_map)
  then show ?thesis
    by (simp add: sorted_wrt_rev)
qed

lemma validate_title_absent:
  "validate_value coerce ''title'' (joi_required (joi_min 2 Joi_string)) JUndefined =
     Inl (AnyRequired ''title'')"
  by (simp add: validate_value_def joi_coerce_def joi_required_def joi_min_def Joi_string_def)

lemma validate_title_short:
  "length s \<le> 1 \<Longrightarrow>
   validate_value coerce ''title'' (joi_required (joi_min 2 Joi_string)) (JStr s) =
     Inl (if s = [] then StringEmpty ''title'' else StringMin ''title'')"
  by (simp add: validate_value_def joi_coerce_def joi_required_def joi_min_def Joi_string_def
      joi_base_def joi_rules_def)





lemma createPerk_title_error:
  assumes "validate_value coerce ''title'' (joi_required (joi_min 2 Joi_string))
             (get body ''title'') = Inl e"
  shows "createPerk_request coerce body = Inl (Respond 400 (JoiMessage e))"
  using assms by (simp add: createPerk_request_def joi_validate_def perkSchema_def)










section \<open>Properties\<close>

text \<open>
  C1. An update whose body has two or more allowed fields that violate their constraints
  should get a client error whose list names every one of them, and no store call. The
  checks of title, description, category and merchant are guarded by the truthiness of the
  value, so an invalid value that is falsy is passed over. With category "" and
  discountPercent 150, both invalid, the error list has the message of the discount only.
  With title null and merchant false, both invalid, there is no error at all and the
  update goes to the store.
\<close>

theorem updatePerk_error_list_omits_falsy_fields:
  "\<not> satisfies_constraint ''category'' (JStr '''') \<and>
   \<not> satisfies_constraint ''discountPercent'' (JNum (Fin 150)) \<and>
   updatePerk_request hex24 ''507f1f77bcf86cd799439011''
       [(''category'', JStr ''''), (''discountPercent'', JNum (Fin 150))] =
     Inl (Respond 400 (MessageErrors ''Validation errors''
            [''Discount percent must be a number between 0 and 100''])) \<and>
   \<not> satisfies_constraint ''title'' JNull \<and>
   \<not> satisfies_constraint ''merchant'' (JBool False) \<and>
   updatePerk_request hex24 ''507f1f77bcf86cd799439011''
       [(''title'', JNull), (''merchant'', JBool False)] =
     Inr (''507f1f77bcf86cd799439011'', [(''title'', JNull), (''merchant'', JBool False)])"
  by (simp add: satisfies_constraint_def updatePerk_request_def hex24_example isValidUpdate_def
      object_keys_def allowedUpdates_def update_errors_def get_def)

text \<open>
  C2 (amended). For every update request whose body contains a key outside title,
  description, category, discountPercent and merchant, the handler rejects the whole update
  with a single 400 message and the store is never called. The message is "Invalid fields
  provided for update" when the identifier is syntactically valid; the identifier is
  checked first, and a malformed one gets "Invalid perk ID".
\<close>

theorem updatePerk_disallowed_key_rejected:
  assumes "k \<in> set (object_keys updates)" and "k \<notin> set allowedUpdates"
  shows "updatePerk_request isValid pid updates =
           Inl (Respond 400 (Message (if isValid pid then ''Invalid fields provided for update''
                                      else ''Invalid perk ID''))) \<and>
         updatePerk isValid validators st pid updates =
           (Respond 400 (Message (if isValid pid then ''Invalid fields provided for update''
                                  else ''Invalid perk ID'')), st)"
proof -
  from assms have "\<not> isValidUpdate updates"
    by (auto simp: isValidUpdate_iff)
  then show ?thesis
    by (simp add: updatePerk_def updatePerk_request_def)
qed

text \<open>
  An update that tries to set createdAt next to a title.
\<close>

theorem updatePerk_disallowed_key_rejected_witness:
  "''createdAt'' \<in> set (object_keys [(''title'', JStr ''Gym''), (''createdAt'', JNum (Fin 0))]) \<and>
   ''createdAt'' \<notin> set allowedUpdates \<and>
   updatePerk hex24 (\<lambda>k v. None) [] ''507f1f77bcf86cd799439011''
       [(''title'', JStr ''Gym''), (''createdAt'', JNum (Fin 0))] =
     (Respond 400 (Message ''Invalid fields provided for update''), [])"
proof -
  have a: "''createdAt'' \<in> set (object_keys [(''title'', JStr ''Gym''), (''createdAt'', JNum (Fin 0))])"
    by (simp add: object_keys_def)
  have b: "''createdAt'' \<notin> set allowedUpdates"
    by (simp add: allowedUpdates_def)
  from updatePerk_disallowed_key_rejected [OF a b, where isValid = hex24
      and pid = "''507f1f77bcf86cd799439011''" and validators = "\<lambda>k v. None" and st = "[]"]
    a b hex24_example
  show ?thesis by simp
qed

text \<open>
  C2 as stated fails when the identifier is malformed: the body has a key that is not
  allowed, and the error names the identifier, not the fields.
\<close>

theorem updatePerk_disallowed_key_invalid_id:
  "''createdAt'' \<in> set (object_keys [(''createdAt'', JNum (Fin 0))]) \<and>
   ''createdAt'' \<notin> set allowedUpdates \<and>
   updatePerk_request hex24 ''42'' [(''createdAt'', JNum (Fin 0))] =
     Inl (Respond 400 (Message ''Invalid perk ID'')) \<and>
   updatePerk_request hex24 ''42'' [(''createdAt'', JNum (Fin 0))] \<noteq>
     Inl (Respond 400 (Message ''Invalid fields provided for update''))"
  by (simp add: updatePerk_request_def hex24_def object_keys_def allowedUpdates_def)

text \<open>
  C3. Every allowed field present in the body with a value that violates its constraint
  should add a violation to the error list. The checks of title, description, category and
  merchant are guarded by the truthiness of the value, so a falsy value is never checked:
  for the body with title 0 and category "" neither value satisfies its constraint, the
  error list is empty, and the update goes to the store.
\<close>

theorem update_errors_skips_falsy_values:
  "\<not> satisfies_constraint ''title'' (JNum (Fin 0)) \<and>
   \<not> satisfies_constraint ''category'' (JStr '''') \<and>
   update_errors [(''title'', JNum (Fin 0)), (''category'', JStr '''')] = []"
  by (simp add: satisfies_constraint_def update_errors_def get_def)

text \<open>
  With the empty error list the handler goes on to the store call.
\<close>

theorem update_errors_skips_falsy_values_witness:
  "updatePerk_request hex24 ''507f1f77bcf86cd799439011''
       [(''title'', JNum (Fin 0)), (''category'', JStr '''')] =
     Inr (''507f1f77bcf86cd799439011'', [(''title'', JNum (Fin 0)), (''category'', JStr '''')])"
  using update_errors_skips_falsy_values
  by (simp add: updatePerk_request_def hex24_example isValidUpdate_def object_keys_def
      allowedUpdates_def)

text \<open>
  C5. For every create request whose title is absent, or is a string of length 0 or 1, the
  create handler answers 400 with the validation message of the schema (required, empty,
  or too short), and ends before the store insert.
\<close>

theorem createPerk_short_title_rejected:
  assumes "''title'' \<notin> set (object_keys body) \<or> (\<exists>s. get body ''title'' = JStr s \<and> length s \<le> 1)"
  shows "createPerk_request coerce body =
           Inl (Respond 400 (JoiMessage
             (case get body ''title'' of
                JStr s \<Rightarrow> (if s = [] then StringEmpty ''title'' else StringMin ''title'')
              | _ \<Rightarrow> AnyRequired ''title'')))"
  using assms
proof
  assume "''title'' \<notin> set (object_keys body)"
  then have u: "get body ''title'' = JUndefined" by (rule get_absent)
  then show ?thesis
    using createPerk_title_error [of coerce body "AnyRequired ''title''"]
    by (simp add: validate_title_absent)
next
  assume "\<exists>s. get body ''title'' = JStr s \<and> length s \<le> 1"
  then obtain s where s: "get body ''title'' = JStr s" "length s \<le> 1" by blast
  then show ?thesis
    using createPerk_title_error [of coerce body "if s = [] then StringEmpty ''title'' else StringMin ''title''"]
    by (simp add: validate_title_short)
qed

text \<open>
  A one-character title.
\<close>

theorem createPerk_short_title_rejected_witness:
  "get [(''title'', JStr ''G''), (''merchant'', JStr ''Acme'')] ''title'' = JStr ''G'' \<and>
   length ''G'' \<le> 1 \<and>
   createPerk_request (\<lambda>s. NoMatch) [(''title'', JStr ''G''), (''merchant'', JStr ''Acme'')] =
     Inl (Respond 400 (JoiMessage (StringMin ''title'')))"
proof -
  have g: "get [(''title'', JStr ''G''), (''merchant'', JStr ''Acme'')] ''title'' = JStr ''G''"
    by (simp add: get_def)
  then have h: "''title'' \<notin> set (object_keys [(''title'', JStr ''G''), (''merchant'', JStr ''Acme'')]) \<or>
    (\<exists>s. get [(''title'', JStr ''G''), (''merchant'', JStr ''Acme'')] ''title'' = JStr s \<and> length s \<le> 1)"
    by simp
  from createPerk_short_title_rejected [OF h, of "\<lambda>s. NoMatch"] g
  show ?thesis by simp
qed



text \<open>
  C7 (amended). For every filter-by-title request that supplies a non-empty title, the
  handler answers 200 with exactly the records whose title equals the given value (as a
  multiset: every match once, and nothing else), ordered by creation time descending; the
  sequence is empty, and the status still 200, exactly when no record matches.
\<close>

theorem filterPerks_exact_title_newest_first:
  assumes "s \<noteq> []"
  shows "\<exists>ds. filterPerks st (JStr s) = Respond 200 (PerkList ds) \<and>
              mset ds = filter_mset (\<lambda>d. get (doc_fields d) ''title'' = JStr s) (mset st) \<and>
              sorted_wrt (\<lambda>a b. createdAt b \<le> createdAt a) ds \<and>
              (ds = [] \<longleftrightarrow> (\<forall>d \<in> set st. get (doc_fields d) ''title'' \<noteq> JStr s))"
proof -
  let ?ds = "rev (sort_key createdAt (filter (\<lambda>d. get (doc_fields d) ''title'' = JStr s) st))"
  have "filterPerks st (JStr s) = Respond 200 (PerkList ?ds)"
    using assms by (rule filterPerks_nonempty)
  moreover have "mset ?ds = filter_mset (\<lambda>d. get (doc_fields d) ''title'' = JStr s) (mset st)"
    by simp
  moreover have "sorted_wrt (\<lambda>a b. createdAt b \<le> createdAt a) ?ds"
    by (rule newest_first_rev_sort)
  moreover have "?ds = [] \<longleftrightarrow> (\<forall>d \<in> set st. get (doc_fields d) ''title'' \<noteq> JStr s)"
  proof -
    have "?ds = [] \<longleftrightarrow> set ?ds = {}" by (simp only: set_empty)
    also have "\<dots> \<longleftrightarrow> (\<forall>d \<in> set st. get (doc_fields d) ''title'' \<noteq> JStr s)"
      by auto
    finally show ?thesis .
  qed
  ultimately show ?thesis by blast
qed

text \<open>
  Three records, two titled "Gym" and one "Gymnasium": the two exact matches come back,
  the newer first.
\<close>

theorem filterPerks_exact_title_newest_first_witness:
  "''Gym'' \<noteq> [] \<and>
   (\<exists>ds. filterPerks
           [\<lparr>doc_id = ''a'', createdAt = 1, doc_fields = [(''title'', JStr ''Gym'')]\<rparr>,
            \<lparr>doc_id = ''b'', createdAt = 3, doc_fields = [(''title'', JStr ''Gym'')]\<rparr>,
            \<lparr>doc_id = ''c'', createdAt = 2, doc_fields = [(''title'', JStr ''Gymnasium'')]\<rparr>]
           (JStr ''Gym'') = Respond 200 (PerkList ds) \<and>
         sorted_wrt (\<lambda>a b. createdAt b \<le> createdAt a) ds) \<and>
   filterPerks
     [\<lparr>doc_id = ''a'', createdAt = 1, doc_fields = [(''title'', JStr ''Gym'')]\<rparr>,
      \<lparr>doc_id = ''b'', createdAt = 3, doc_fields = [(''title'', JStr ''Gym'')]\<rparr>,
      \<lparr>doc_id = ''c'', createdAt = 2, doc_fields = [(''title'', JStr ''Gymnasium'')]\<rparr>]
     (JStr ''Gym'') =
   Respond 200 (PerkList
     [\<lparr>doc_id = ''b'', createdAt = 3, doc_fields = [(''title'', JStr ''Gym'')]\<rparr>,
      \<lparr>doc_id = ''a'', createdAt = 1, doc_fields = [(''title'', JStr ''Gym'')]\<rparr>])"
proof -
  let ?st = "[\<lparr>doc_id = ''a'', createdAt = 1, doc_fields = [(''title'', JStr ''Gym'')]\<rparr>,
              \<lparr>doc_id = ''b'', createdAt = 3, doc_fields = [(''title'', JStr ''Gym'')]\<rparr>,
              \<lparr>doc_id = ''c'', createdAt = 2, doc_fields = [(''title'', JStr ''Gymnasium'')]\<rparr>]"
  have ne: "''Gym'' \<noteq> []" by simp
  have ex: "\<exists>ds. filterPerks ?st (JStr ''Gym'') = Respond 200 (PerkList ds) \<and>
                 sorted_wrt (\<lambda>a b. createdAt b \<le> createdAt a) ds"
    using filterPerks_exact_title_newest_first [OF ne, of ?st] by blast
  have ev: "filterPerks ?st (JStr ''Gym'') =
     Respond 200 (PerkList
       [\<lparr>doc_id = ''b'', createdAt = 3, doc_fields = [(''title'', JStr ''Gym'')]\<rparr>,
        \<lparr>doc_id = ''a'', createdAt = 1, doc_fields = [(''title'', JStr ''Gym'')]\<rparr>])"
    by (simp add: filterPerks_def filterPerks_request_def filterPerks_reply_def
        store_find_title_def get_def)
  from ne ex ev show ?thesis by (intro conjI)
qed

text \<open>
  C7 as stated fails for the empty title: on a store without records the answer is the
  400 error, not the empty sequence with status 200.
\<close>

theorem filterPerks_empty_title_no_listing:
  "filterPerks [] (JStr '''') = Respond 400 (Message ''Title query parameter is required'') \<and>
   filterPerks [] (JStr '''') \<noteq> Respond 200 (PerkList [])"
  by (simp add: filterPerks_def filterPerks_request_def)

text \<open>
  C8. When the store throws an error whose code is 11000, the duplicate-key signal, the
  create handler answers 409 "Duplicate perk for this merchant"; an error with any other
  code is passed to next, the fallback error responder.
\<close>

theorem createPerk_duplicate_key_409:
  assumes "c \<noteq> JNum (Fin 11000)"
  shows "createPerk_reply (Inl (JsError (JNum (Fin 11000)) m)) =
           Respond 409 (Message ''Duplicate perk for this merchant'') \<and>
         createPerk_reply (Inl (JsError c m')) = Next (JsError c m')"
  using assms by (simp add: createPerk_reply_def)

text \<open>
  A duplicate-key error, and an error without a code.
\<close>

theorem createPerk_duplicate_key_409_witness:
  "JUndefined \<noteq> JNum (Fin 11000) \<and>
   createPerk_reply (Inl (JsError (JNum (Fin 11000)) ''E11000 duplicate key error'')) =
     Respond 409 (Message ''Duplicate perk for this merchant'') \<and>
   createPerk_reply (Inl (JsError JUndefined ''connection lost'')) =
     Next (JsError JUndefined ''connection lost'')"
  using createPerk_duplicate_key_409 [of JUndefined "''E11000 duplicate key error''" "''connection lost''"]
  by simp

text \<open>
  C9. A filter-by-title request whose title parameter is present but empty gets the 400
  response "Title query parameter is required"; the handler ends before the store call, so
  no exact-match query for the empty title is made.
\<close>

theorem filterPerks_empty_title_400:
  "filterPerks_request (JStr '''') =
     Inl (Respond 400 (Message ''Title query parameter is required''))"
  by (simp add: filterPerks_request_def)

text \<open>
  C10. For every update request with a syntactically valid identifier and an empty body,
  the whitelist check and the field validation pass and the store update is called with
  the empty field set; whatever the validators of the store, the record with that
  identifier, if there is one, is returned unchanged with status 200 and the store is as
  before; the answer is 404 when no record has the identifier.
\<close>

theorem updatePerk_empty_body:
  assumes "isValid pid"
  shows "isValidUpdate [] \<and> update_errors [] = [] \<and>
         updatePerk_request isValid pid [] = Inr (pid, []) \<and>
         updatePerk isValid validators st pid [] =
           (case find (\<lambda>d. doc_id d = pid) st of
              Some d \<Rightarrow> Respond 200 (PerkBody d)
            | None \<Rightarrow> Respond 404 (Message ''Perk not found''),
            st)"
proof -
  have a: "isValidUpdate []"
    by (simp add: isValidUpdate_def object_keys_def)
  have b: "update_errors [] = []"
    by (simp add: update_errors_def get_def)
  from assms a b have c: "updatePerk_request isValid pid [] = Inr (pid, [])"
    by (simp add: updatePerk_request_def)
  have d: "updatePerk isValid validators st pid [] =
           (case find (\<lambda>d. doc_id d = pid) st of
              Some d \<Rightarrow> Respond 200 (PerkBody d)
            | None \<Rightarrow> Respond 404 (Message ''Perk not found''),
            st)"
    by (simp add: updatePerk_def c store_findByIdAndUpdate_def run_validators_empty update_first_empty
        updatePerk_reply_def split: option.split)
  from a b c d show ?thesis by simp
qed

text \<open>
  The empty update of an existing record, and of a missing one, on a store whose
  validators refuse every field.
\<close>

theorem updatePerk_empty_body_witness:
  "hex24 ''507f1f77bcf86cd799439011'' \<and>
   updatePerk hex24 (\<lambda>k v. Some (JsError JUndefined ''ValidationError''))
       [\<lparr>doc_id = ''507f1f77bcf86cd799439011'', createdAt = 1,
         doc_fields = [(''title'', JStr ''Gym'')]\<rparr>]
       ''507f1f77bcf86cd799439011'' [] =
     (Respond 200 (PerkBody \<lparr>doc_id = ''507f1f77bcf86cd799439011'', createdAt = 1,
                              doc_fields = [(''title'', JStr ''Gym'')]\<rparr>),
      [\<lparr>doc_id = ''507f1f77bcf86cd799439011'', createdAt = 1,
        doc_fields = [(''title'', JStr ''Gym'')]\<rparr>]) \<and>
   updatePerk hex24 (\<lambda>k v. Some (JsError JUndefined ''ValidationError'')) []
       ''507f1f77bcf86cd799439011'' [] =
     (Respond 404 (Message ''Perk not found''), [])"
  using updatePerk_empty_body [where isValid = hex24 and pid = "''507f1f77bcf86cd799439011''"
      and validators = "\<lambda>k v. Some (JsError JUndefined ''ValidationError'')"
      and st = "[\<lparr>doc_id = ''507f1f77bcf86cd799439011'', createdAt = 1,
             doc_fields = [(''title'', JStr ''Gym'')]\<rparr>]", OF hex24_example]
    updatePerk_empty_body [where isValid = hex24 and pid = "''507f1f77bcf86cd799439011''"
      and validators = "\<lambda>k v. Some (JsError JUndefined ''ValidationError'')" and st = "[]",
      OF hex24_example]
    hex24_example
  by simp

end
